theory Spec2Isabelle
  imports Main "HOL-Library.Sublist"
begin

section \<open>Web Print Portal: the components of App.tsx\<close>

text \<open>
  The portal is one React component tree (src/App.tsx). Each component's state hooks
  become fields of one record, each event handler becomes a function from the state
  before the event to the state after it, and the effects a handler has on the world
  (timers, the network, the console) are fields of the same record.

  A JavaScript number is a double. The copies count only ever holds doubles that are
  integers, or an infinity (the props are 1, \<open>parseInt\<close> yields an integer or an infinity,
  and the handlers add or subtract 1), so a number is modelled by its integer value or
  an infinity, and each arithmetic operation by the exact result rounded to the nearest
  double, ties to the even significand. Minus zero is not told from zero: the program
  compares, adds and shows them alike.
\<close>

subsection \<open>Numbers\<close>

text \<open>
  From \<open>2 ^ 53\<close> on, the doubles are \<open>ulp\<close> apart: 2 below \<open>2 ^ 54\<close>, 4 below \<open>2 ^ 55\<close>, and
  so on. Up to \<open>2 ^ 53\<close> in magnitude every integer is a double.
\<close>

function ulp :: "int \<Rightarrow> int" where
  "ulp x = (if x < 2 ^ 54 then 2 else 2 * ulp (x div 2))"
  by pat_completeness auto
termination
  by (relation "measure nat") auto

declare ulp.simps [simp del]

definition roundTiesToEven :: "int \<Rightarrow> int" where
  "roundTiesToEven x =
     (if \<bar>x\<bar> \<le> 2 ^ 53 then x
      else (let q = ulp \<bar>x\<bar>;
                m = \<bar>x\<bar> div q;
                r = \<bar>x\<bar> mod q;
                m' = (if q < 2 * r \<or> (2 * r = q \<and> odd m) then m + 1 else m)
            in sgn x * (m' * q)))"

datatype number = Finite int | PosInfinity | NegInfinity

text \<open>The number an exact integer result becomes: the largest double is
  \<open>2 ^ 1024 - 2 ^ 971\<close>, and what rounds to \<open>2 ^ 1024\<close> is an infinity.\<close>

definition toDouble :: "int \<Rightarrow> number" where
  "toDouble x =
     (let y = roundTiesToEven x
      in if 2 ^ 1024 \<le> \<bar>y\<bar> then (if 0 < x then PosInfinity else NegInfinity) else Finite y)"

text \<open>\<open>x + d\<close> for an integer \<open>d\<close>, \<open>Math.max(mn, x)\<close> and \<open>x < mn\<close> for an integer \<open>mn\<close>.\<close>

fun addInt :: "number \<Rightarrow> int \<Rightarrow> number" where
  "addInt (Finite v) d = toDouble (v + d)"
| "addInt PosInfinity d = PosInfinity"
| "addInt NegInfinity d = NegInfinity"

fun mathMax :: "int \<Rightarrow> number \<Rightarrow> number" where
  "mathMax mn (Finite v) = Finite (max mn v)"
| "mathMax mn PosInfinity = PosInfinity"
| "mathMax mn NegInfinity = Finite mn"

fun lessThan :: "number \<Rightarrow> int \<Rightarrow> bool" where
  "lessThan (Finite v) mn = (v < mn)"
| "lessThan PosInfinity mn = False"
| "lessThan NegInfinity mn = True"

subsection \<open>Status (lines 3-8)\<close>

datatype StatusType = Info | Success | Error

record Status =
  message :: string
  type :: StatusType

subsection \<open>CustomNumberInput (lines 142-208)\<close>

text \<open>
  \<open>count\<close> is declared a number, but \<open>handleInputChange\<close> stores the empty string in it
  (\<open>setCount('' as any)\<close>), and in JavaScript \<open>'' + 1\<close> is the string \<open>"1"\<close>, \<open>"1" + 1\<close> is
  \<open>"11"\<close>, and so on. So the values \<open>count\<close> can hold are the numbers and the strings
  made of k characters \<open>1\<close>: \<open>Ones k\<close> stands for that string, and \<open>Ones 0\<close> is the empty
  string, the transient state of a cleared field. \<open>Num v\<close> is the count that is the
  integer \<open>v\<close>.
\<close>

datatype count = Number number | Ones nat

abbreviation Num :: "int \<Rightarrow> count" where
  "Num v \<equiv> Number (Finite v)"

abbreviation Empty :: count where
  "Empty \<equiv> Ones 0"

text \<open>\<open>ToNumber\<close>: a number is itself, and a string of k ones is the double nearest to
  the integer it spells, 0 for the empty string. (Past 20 digits the language lets an
  implementation round a little differently; the nearest double is what the browsers
  compute.)\<close>

fun toNumber :: "count \<Rightarrow> number" where
  "toNumber (Number x) = x"
| "toNumber (Ones k) = toDouble ((10 ^ k - 1) div 9)"

text \<open>\<open>setCount(prev => Math.max(min, prev - 1))\<close>; a string operand of \<open>-\<close> is converted
  to a number first.\<close>

definition handleDecrement :: "int \<Rightarrow> count \<Rightarrow> count" where
  "handleDecrement mn prev = Number (mathMax mn (addInt (toNumber prev) (- 1)))"

text \<open>\<open>setCount(prev => prev + 1)\<close>; with a string operand \<open>+\<close> concatenates.\<close>

fun handleIncrement :: "count \<Rightarrow> count" where
  "handleIncrement (Number prev) = Number (addInt prev 1)"
| "handleIncrement (Ones k) = Ones (Suc k)"

text \<open>
  \<open>parseInt(value, 10)\<close>: leading white space is skipped, then an optional sign, then the
  longest run of decimal digits is read; with no digit the result is NaN (\<open>None\<close>), and
  otherwise the double nearest to the integer the digits spell (past 20 digits, see
  \<open>toNumber\<close>). Text is a list of 8-bit characters, so the white space recognised is that
  of Latin-1.
\<close>

definition isWhiteSpace :: "char \<Rightarrow> bool" where
  "isWhiteSpace c = (of_char c \<in> {9, 10, 11, 12, 13, 32, 160 :: nat})"

definition isDigit :: "char \<Rightarrow> bool" where
  "isDigit c = (48 \<le> (of_char c :: nat) \<and> (of_char c :: nat) \<le> 57)"

text \<open>The integer a run of decimal digits spells.\<close>

definition digitsValue :: "string \<Rightarrow> int" where
  "digitsValue z = foldl (\<lambda>a c. 10 * a + (int (of_char c) - 48)) 0 z"

definition parseInt :: "string \<Rightarrow> number option" where
  "parseInt v =
     (let s = dropWhile isWhiteSpace v;
          sign = (if s \<noteq> [] \<and> hd s = CHR ''-'' then - 1 else 1);
          s' = (if s \<noteq> [] \<and> (hd s = CHR ''+'' \<or> hd s = CHR ''-'') then tl s else s);
          z = takeWhile isDigit s'
      in if z = [] then None else Some (toDouble (sign * digitsValue z)))"

text \<open>\<open>handleInputChange\<close>: the argument is \<open>e.target.value\<close>, the text of the field after
  the edit.\<close>

definition handleInputChange :: "string \<Rightarrow> count \<Rightarrow> count" where
  "handleInputChange v c =
     (if v = [] then Empty
      else (case parseInt v of
              Some numValue \<Rightarrow> Number numValue
            | None \<Rightarrow> c))"

text \<open>\<open>handleInputBlur\<close>: \<open>if (count === '' || count < min) setCount(min)\<close>. A string is
  compared with a number by its numeric value.\<close>

definition handleInputBlur :: "int \<Rightarrow> count \<Rightarrow> count" where
  "handleInputBlur mn c = (if c = Empty \<or> lessThan (toNumber c) mn then Num mn else c)"

text \<open>The props PrintForm passes (line 269): \<open>defaultValue={1} min={1}\<close>.\<close>

definition copies_min :: int where
  "copies_min = 1"

definition copies_defaultValue :: int where
  "copies_defaultValue = 1"

subsection \<open>The state of the application\<close>

text \<open>
  The file input element: the names of the files selected in it (its \<open>value\<close> is the empty
  string exactly when there is none), and whether PrintForm's effect has stored the
  \<open>resetFileName\<close> function on the element.
\<close>

record fileInputElement =
  files :: "string list"
  resetFileName :: bool

text \<open>The one request the handler issues: \<open>fetch(webhookUrl, {method: 'POST', headers:
  {'X-API-KEY': apiKey}, body: formData})\<close>, the form data being the fields of the form.\<close>

record request =
  url :: string
  xApiKey :: string
  formFile :: "string list"
  formCopies :: count

text \<open>How the request ends: the promise of \<open>fetch\<close> rejects, or resolves to a response with
  a status code and a body; \<open>body = None\<close> when reading the body (\<open>response.text()\<close>)
  fails. \<open>response.ok\<close> is true for the codes 200 to 299.\<close>

record response =
  code :: nat
  body :: "string option"

definition ok :: "response \<Rightarrow> bool" where
  "ok r = (200 \<le> code r \<and> code r \<le> 299)"

datatype fetchOutcome = Rejected | Resolved response

text \<open>The two \<open>console.error\<close> calls.\<close>

datatype logEntry = PrintJobFailed nat string | UnexpectedError

text \<open>
  \<^item> \<open>status\<close>, \<open>isLoading\<close>: the state of AppContent (lines 284-285);
  \<^item> \<open>timers\<close>: the browser's pending timeouts, each an id and the milliseconds left;
    \<open>nextTimer\<close>: the id the next \<open>setTimeout\<close> returns; \<open>cleanup\<close>: the timer id held by
    the cleanup function of the status effect (line 293), if the effect returned one;
  \<^item> \<open>fileName\<close>: the state of PrintForm (line 213); \<open>count\<close>: the state of
    CustomNumberInput (line 143), which is the value of the copies field
    (\<open>value={count}\<close>);
  \<^item> \<open>fileInput\<close>: the file input element of the form; \<open>refAttached\<close>: whether
    \<open>fileInputRef.current\<close> is that element (otherwise it is null);
  \<^item> \<open>fetches\<close>: the requests issued so far; \<open>console\<close>: what was logged.
\<close>

record app =
  status :: "Status option"
  isLoading :: bool
  timers :: "(nat \<times> nat) list"
  nextTimer :: nat
  cleanup :: "nat option"
  fileName :: "string option"
  count :: count
  fileInput :: fileInputElement
  refAttached :: bool
  fetches :: "request list"
  console :: "logEntry list"

subsection \<open>The auto-dismiss effect (lines 288-295)\<close>

definition clearTimeout :: "nat \<Rightarrow> app \<Rightarrow> app" where
  "clearTimeout t s = s\<lparr>timers := filter (\<lambda>(i, r). i \<noteq> t) (timers s)\<rparr>"

definition setTimeout :: "nat \<Rightarrow> app \<Rightarrow> nat \<times> app" where
  "setTimeout delay s =
     (nextTimer s, s\<lparr>timers := timers s @ [(nextTimer s, delay)], nextTimer := Suc (nextTimer s)\<rparr>)"

text \<open>When \<open>status\<close> has changed, React first runs the cleanup function the effect returned
  last time, if any (\<open>clearTimeout(timer)\<close>), then the effect again.\<close>

definition runCleanup :: "app \<Rightarrow> app" where
  "runCleanup s =
     (case cleanup s of
        None \<Rightarrow> s
      | Some t \<Rightarrow> (clearTimeout t s)\<lparr>cleanup := None\<rparr>)"

definition statusEffect :: "app \<Rightarrow> app" where
  "statusEffect s =
     (let s1 = runCleanup s in
      case status s1 of
        None \<Rightarrow> s1
      | Some st \<Rightarrow>
          if type st = Success \<or> type st = Error
          then (let (t, s2) = setTimeout 5000 s1 in s2\<lparr>cleanup := Some t\<rparr>)
          else s1)"

text \<open>\<open>setStatus\<close>: every status the program sets is a new object, so the state changes and
  the effect runs; setting null when the status is null already changes nothing.\<close>

definition setStatus :: "Status option \<Rightarrow> app \<Rightarrow> app" where
  "setStatus new s =
     (if new = None \<and> status s = None then s
      else statusEffect (s\<lparr>status := new\<rparr>))"

text \<open>A timeout that comes due leaves the table and runs its callback, which is
  \<open>() => setStatus(null)\<close> for every timer of this program.\<close>

definition fire :: "nat \<Rightarrow> app \<Rightarrow> app" where
  "fire t s =
     (if t \<in> fst ` set (timers s) then setStatus None (clearTimeout t s) else s)"

text \<open>One millisecond passes; then \<open>n\<close> milliseconds with no other event.\<close>

definition tick :: "app \<Rightarrow> app" where
  "tick s =
     (let ts = map (\<lambda>(i, r). (i, r - 1)) (timers s);
          due = map fst (filter (\<lambda>(i, r). r = 0) ts)
      in fold fire due (s\<lparr>timers := ts\<rparr>))"

fun elapse :: "nat \<Rightarrow> app \<Rightarrow> app" where
  "elapse 0 s = s"
| "elapse (Suc n) s = elapse n (tick s)"

subsection \<open>PrintForm (lines 212-279)\<close>

text \<open>\<open>handleFileChange\<close>: the user's choice has become the element's file list.\<close>

definition handleFileChange :: "string list \<Rightarrow> app \<Rightarrow> app" where
  "handleFileChange chosen s =
     (let s1 = s\<lparr>fileInput := (fileInput s)\<lparr>files := chosen\<rparr>\<rparr> in
      case chosen of
        f # _ \<Rightarrow> s1\<lparr>fileName := Some f\<rparr>
      | [] \<Rightarrow> s1\<lparr>fileName := None\<rparr>)"

definition handleRemoveFile :: "app \<Rightarrow> app" where
  "handleRemoveFile s =
     (if refAttached s
      then s\<lparr>fileInput := (fileInput s)\<lparr>files := []\<rparr>, fileName := None\<rparr>
      else s)"

text \<open>The effect of lines 230-234 stores \<open>resetFileName\<close> on the element.\<close>

definition installResetFileName :: "app \<Rightarrow> app" where
  "installResetFileName s =
     (if refAttached s
      then s\<lparr>fileInput := (fileInput s)\<lparr>resetFileName := True\<rparr>\<rparr>
      else s)"

text \<open>The submit button is \<open>disabled={isLoading}\<close> (line 273).\<close>

definition submitDisabled :: "app \<Rightarrow> bool" where
  "submitDisabled s = isLoading s"

text \<open>The application once mounted: the initial states of the hooks, the ref attached to
  the file input, and the effect of PrintForm run.\<close>

definition mounted :: app where
  "mounted = installResetFileName
     \<lparr>status = None, isLoading = False, timers = [], nextTimer = 0, cleanup = None,
      fileName = None, count = Num copies_defaultValue,
      fileInput = \<lparr>files = [], resetFileName = False\<rparr>, refAttached = True,
      fetches = [], console = []\<rparr>"

subsection \<open>handleSubmit (lines 297-344)\<close>

text \<open>The configuration read from \<open>import.meta.env\<close>: a variable that is not set is
  undefined (\<open>None\<close>). \<open>!apiKey\<close> holds for undefined and for the empty string.\<close>

record config =
  apiKey :: "string option"
  webhookUrl :: "string option"

definition truthy :: "string option \<Rightarrow> bool" where
  "truthy v = (case v of None \<Rightarrow> False | Some x \<Rightarrow> x \<noteq> [])"

text \<open>
  \<open>form.reset()\<close> restores every control of the form to its default: the file input loses
  its files. The copies field is controlled (\<open>value={count}\<close>): what it shows is the state
  \<open>count\<close>, which only \<open>setCount\<close> changes, so the reset leaves it as it is.
\<close>

definition form_reset :: "app \<Rightarrow> app" where
  "form_reset s = s\<lparr>fileInput := (fileInput s)\<lparr>files := []\<rparr>\<rparr>"

text \<open>
  The handler is asynchronous. \<open>handleSubmit_begin\<close> is what runs at the submit event, up
  to the call of \<open>fetch\<close>: it returns the request when one was issued, and \<open>None\<close> when the
  handler returned before. \<open>handleSubmit_resume\<close> is what runs once the request has
  ended, on the state of that moment.
\<close>

definition handleSubmit_begin :: "config \<Rightarrow> app \<Rightarrow> app \<times> request option" where
  "handleSubmit_begin cfg s =
     (if \<not> truthy (apiKey cfg) \<or> \<not> truthy (webhookUrl cfg)
      then (setStatus (Some \<lparr>message = ''Error: Missing configuration. Please check your .env.local file.'',
                               type = Error\<rparr>) s, None)
      else
        (let s1 = setStatus (Some \<lparr>message = ''Uploading and sending to printer...'', type = Info\<rparr>)
                    (s\<lparr>isLoading := True\<rparr>);
             req = \<lparr>url = the (webhookUrl cfg), xApiKey = the (apiKey cfg),
                    formFile = files (fileInput s1), formCopies = count s1\<rparr>
         in (s1\<lparr>fetches := fetches s1 @ [req]\<rparr>, Some req)))"

text \<open>The body of \<open>try\<close> after the request has ended: \<open>None\<close> when it throws, which
  happens at the two \<open>await\<close>s, before the state is touched.\<close>

definition handleSubmit_try :: "fetchOutcome \<Rightarrow> app \<Rightarrow> app option" where
  "handleSubmit_try out s =
     (case out of
        Rejected \<Rightarrow> None
      | Resolved r \<Rightarrow>
          if ok r then
            (let s1 = setStatus (Some \<lparr>message = ''Success! Print job sent.'', type = Success\<rparr>) s;
                 s2 = form_reset s1
             in Some (if refAttached s2
                      then (let s3 = s2\<lparr>fileInput := (fileInput s2)\<lparr>files := []\<rparr>\<rparr>
                            in if resetFileName (fileInput s3) then s3\<lparr>fileName := None\<rparr> else s3)
                      else s2))
          else
            (case body r of
               None \<Rightarrow> None
             | Some errorText \<Rightarrow>
                 Some (setStatus
                         (Some \<lparr>message = ''Error: '' @ (if errorText \<noteq> [] then errorText
                                                          else ''Could not send print job.''),
                                type = Error\<rparr>)
                         (s\<lparr>console := console s @ [PrintJobFailed (code r) errorText]\<rparr>))))"

definition handleSubmit_catch :: "app \<Rightarrow> app" where
  "handleSubmit_catch s =
     setStatus (Some \<lparr>message = ''Error: An unexpected network error occurred.'', type = Error\<rparr>)
       (s\<lparr>console := console s @ [UnexpectedError]\<rparr>)"

definition handleSubmit_resume :: "fetchOutcome \<Rightarrow> app \<Rightarrow> app" where
  "handleSubmit_resume out s =
     (let s1 = (case handleSubmit_try out s of
                  Some s' \<Rightarrow> s'
                | None \<Rightarrow> handleSubmit_catch s)
      in s1\<lparr>isLoading := False\<rparr>)"

text \<open>One whole submission with no other event in between; \<open>fetch\<close> says how the request
  ends.\<close>

definition handleSubmit :: "config \<Rightarrow> (request \<Rightarrow> fetchOutcome) \<Rightarrow> app \<Rightarrow> app" where
  "handleSubmit cfg fetch s =
     (case handleSubmit_begin cfg s of
        (s1, None) \<Rightarrow> s1
      | (s1, Some req) \<Rightarrow> handleSubmit_resume (fetch req) s1)"

subsection \<open>The timer discipline\<close>

text \<open>
  Every timeout of the program is created by the status effect, which keeps its id for
  the cleanup. \<open>owned\<close> says that the table of pending timeouts holds nothing else: it is
  empty, or it holds one timeout, the one the cleanup will cancel, and the status it
  will dismiss is a success or an error. It holds in every state the application reaches
  (lemma \<open>reachable_invariant\<close> below).
\<close>

definition owned :: "app \<Rightarrow> bool" where
  "owned s =
     (case timers s of
        [] \<Rightarrow> True
      | p # ps \<Rightarrow>
          ps = [] \<and> cleanup s = Some (fst p) \<and> 0 < snd p \<and>
          (case status s of None \<Rightarrow> False | Some st \<Rightarrow> type st = Success \<or> type st = Error))"

subsection \<open>The states the application reaches\<close>

text \<open>
  From the mounted application, by the events of the user interface, of the network and
  of the clock. The copies field is rendered with \<open>min = 1\<close>. A submit event needs the
  submit button enabled; the second part of the handler runs while a request is in
  flight, which is while \<open>isLoading\<close> holds.
\<close>

inductive reachable :: "config \<Rightarrow> app \<Rightarrow> bool" for cfg :: config where
  start: "reachable cfg mounted"
| decrement: "reachable cfg s \<Longrightarrow> reachable cfg (s\<lparr>count := handleDecrement copies_min (count s)\<rparr>)"
| increment: "reachable cfg s \<Longrightarrow> reachable cfg (s\<lparr>count := handleIncrement (count s)\<rparr>)"
| inputChange: "reachable cfg s \<Longrightarrow> reachable cfg (s\<lparr>count := handleInputChange v (count s)\<rparr>)"
| inputBlur: "reachable cfg s \<Longrightarrow> reachable cfg (s\<lparr>count := handleInputBlur copies_min (count s)\<rparr>)"
| fileChange: "reachable cfg s \<Longrightarrow> reachable cfg (handleFileChange chosen s)"
| removeFile: "reachable cfg s \<Longrightarrow> reachable cfg (handleRemoveFile s)"
| submit: "reachable cfg s \<Longrightarrow> \<not> submitDisabled s \<Longrightarrow>
           reachable cfg (fst (handleSubmit_begin cfg s))"
| settle: "reachable cfg s \<Longrightarrow> isLoading s \<Longrightarrow> reachable cfg (handleSubmit_resume out s)"
| time: "reachable cfg s \<Longrightarrow> reachable cfg (tick s)"

section \<open>The copies stepper\<close>

subsection \<open>Where the arithmetic is exact\<close>

lemma toDouble_exact: "\<bar>x\<bar> \<le> 2 ^ 53 \<Longrightarrow> toDouble x = Finite x"
  by (simp add: toDouble_def roundTiesToEven_def)

lemma handleIncrement_exact:
  "- (2 ^ 53) \<le> c \<Longrightarrow> c < 2 ^ 53 \<Longrightarrow> handleIncrement (Num c) = Num (c + 1)"
  by (simp add: toDouble_exact)

lemma handleDecrement_exact:
  "- (2 ^ 53) < c \<Longrightarrow> c \<le> 2 ^ 53 \<Longrightarrow> handleDecrement mn (Num c) = Num (max mn (c - 1))"
  by (simp add: handleDecrement_def toDouble_exact)

text \<open>The first double past the exact range: \<open>2 ^ 53 + 1\<close> lies halfway between the
  doubles \<open>2 ^ 53\<close> and \<open>2 ^ 53 + 2\<close> and goes to the even one.\<close>

lemma toDouble_tie: "toDouble 9007199254740993 = Finite 9007199254740992"
  by (simp add: toDouble_def roundTiesToEven_def ulp.simps Let_def)

lemma mathMax_not_less: "\<not> lessThan (mathMax mn x) mn"
  by (cases x) simp_all

lemma parseInt_abc: "parseInt ''abc'' = None"
  by (simp add: parseInt_def isWhiteSpace_def isDigit_def)

lemma parseInt_12px: "parseInt ''12px'' = Some (Finite 12)"
  by (simp add: parseInt_def isWhiteSpace_def isDigit_def digitsValue_def toDouble_exact)

lemma parseInt_signed: "parseInt '' -7'' = Some (Finite (- 7))"
  by (simp add: parseInt_def isWhiteSpace_def isDigit_def digitsValue_def toDouble_exact)

text \<open>Sixteen digits can be typed that spell a double past the exact range.\<close>

lemma parseInt_big:
  "parseInt ''9007199254740992'' = Some (Finite 9007199254740992)"
  "parseInt ''9007199254740994'' = Some (Finite 9007199254740994)"
  by (simp_all add: parseInt_def isWhiteSpace_def isDigit_def digitsValue_def toDouble_def
      roundTiesToEven_def ulp.simps Let_def)

subsection \<open>Blur\<close>

text \<open>
  C6. When the field loses focus while its value is the empty text of a cleared field, or
  an integer below \<open>min\<close>, the blur handler sets the value to exactly \<open>min\<close>. In particular,
  clearing the field (an edit to the empty text, from any value \<open>c0\<close>) and leaving it
  without typing yields \<open>min\<close>.
\<close>

theorem blur_coerces_to_min:
  "(c = Empty \<or> (\<exists>v. c = Num v \<and> v < mn) \<longrightarrow> handleInputBlur mn c = Num mn) \<and>
   handleInputBlur mn (handleInputChange [] c0) = Num mn"
  by (auto simp: handleInputBlur_def handleInputChange_def)

text \<open>The same at \<open>min = 1\<close>, for the value 0, for the cleared field, and for a field
  cleared while it showed 7.\<close>

theorem blur_coerces_to_min_witness:
  "handleInputBlur copies_min (Num 0) = Num copies_min \<and>
   handleInputBlur copies_min Empty = Num copies_min \<and>
   handleInputBlur copies_min (handleInputChange [] (Num 7)) = Num copies_min"
  using blur_coerces_to_min [of "Num 0" copies_min "Num 7"]
    blur_coerces_to_min [of Empty copies_min "Num 7"]
  by (simp add: copies_min_def)

subsection \<open>Decrement\<close>

text \<open>
  C7, as stated: for every integer value \<open>c\<close> of the field, one decrement yields
  \<open>max min (c - 1)\<close>. The value is a double, and past \<open>2 ^ 53\<close> the subtraction rounds:
  the text 9007199254740994 (\<open>2 ^ 53 + 2\<close>) typed into the field is that number, and one
  decrement at \<open>min = 1\<close> yields 9007199254740992, not 9007199254740993.
\<close>

theorem decrement_counterexample:
  "handleInputChange ''9007199254740994'' (Num 1) = Num 9007199254740994 \<and>
   handleDecrement copies_min (Num 9007199254740994) = Num 9007199254740992 \<and>
   Num 9007199254740992 \<noteq> Num (max copies_min (9007199254740994 - 1))"
  by (simp add: handleInputChange_def parseInt_big handleDecrement_def toDouble_tie copies_min_def)

text \<open>
  C7, amended. For every integer value \<open>c\<close> of the field with \<open>- 2 ^ 53 < c \<le> 2 ^ 53\<close>,
  one decrement yields \<open>max min (c - 1)\<close>. And starting from an integer value that is at
  least \<open>min\<close>, whatever its size, any number \<open>n\<close> of decrements yields a number that is
  not less than \<open>min\<close>.
\<close>

theorem decrement_clamped:
  "(- (2 ^ 53) < c \<and> c \<le> 2 ^ 53 \<longrightarrow> handleDecrement mn (Num c) = Num (max mn (c - 1))) \<and>
   (mn \<le> c' \<longrightarrow>
      (\<exists>x. (handleDecrement mn ^^ n) (Num c') = Number x \<and> \<not> lessThan x mn))"
proof (intro conjI impI)
  assume "- (2 ^ 53) < c \<and> c \<le> 2 ^ 53"
  then have "- (2 ^ 53) < c" and "c \<le> 2 ^ 53"
    by simp_all
  then show "handleDecrement mn (Num c) = Num (max mn (c - 1))"
    by (rule handleDecrement_exact)
next
  assume start: "mn \<le> c'"
  show "\<exists>x. (handleDecrement mn ^^ n) (Num c') = Number x \<and> \<not> lessThan x mn"
  proof (cases n)
    case 0
    with start show ?thesis by simp
  next
    case (Suc k)
    then have "(handleDecrement mn ^^ n) (Num c') =
        Number (mathMax mn (addInt (toNumber ((handleDecrement mn ^^ k) (Num c'))) (- 1)))"
      by (simp add: handleDecrement_def)
    then show ?thesis
      using mathMax_not_less by blast
  qed
qed

text \<open>At \<open>min = 1\<close>: decrementing 1 leaves 1, decrementing 3 gives 2, and five decrements
  from 3 end at 1.\<close>

theorem decrement_clamped_witness:
  "handleDecrement copies_min (Num 1) = Num 1 \<and>
   handleDecrement copies_min (Num 3) = Num 2 \<and>
   (\<exists>x. (handleDecrement copies_min ^^ 5) (Num 3) = Number x \<and> \<not> lessThan x copies_min)"
  using decrement_clamped [of 1 copies_min 3 5] decrement_clamped [of 3 copies_min 3 5]
  by (simp add: copies_min_def)

subsection \<open>Increment\<close>

text \<open>
  C8, as stated: one increment maps the value \<open>c\<close> to \<open>c + 1\<close> with no upper bound. The
  value is a double: the text 9007199254740992 (\<open>2 ^ 53\<close>) typed into the field is that
  number, and one increment leaves it where it is. And the value need not be a number:
  once the field is cleared, one increment gives the string \<open>1\<close> and the next the string
  \<open>11\<close>, not 2.
\<close>

theorem increment_counterexample:
  "handleInputChange ''9007199254740992'' (Num 1) = Num 9007199254740992 \<and>
   handleIncrement (Num 9007199254740992) = Num 9007199254740992 \<and>
   Num 9007199254740992 \<noteq> Num (9007199254740992 + 1) \<and>
   handleIncrement (handleInputChange [] (Num 1)) = Ones 1 \<and>
   handleIncrement (Ones 1) = Ones 2 \<and>
   Ones 2 \<noteq> Num 2"
  by (simp add: handleInputChange_def parseInt_big toDouble_tie)

text \<open>
  C8, amended. One increment maps a value that is an integer \<open>c\<close> with
  \<open>- 2 ^ 53 \<le> c < 2 ^ 53\<close> to \<open>c + 1\<close>; so when \<open>min\<close> is at least \<open>- 2 ^ 53\<close>, \<open>n\<close> increments
  from the number \<open>min\<close> yield \<open>min + n\<close> for every natural number \<open>n\<close> with
  \<open>min + n \<le> 2 ^ 53\<close>.
\<close>

theorem increment_exact:
  "(- (2 ^ 53) \<le> c \<and> c < 2 ^ 53 \<longrightarrow> handleIncrement (Num c) = Num (c + 1)) \<and>
   (- (2 ^ 53) \<le> mn \<and> mn + int n \<le> 2 ^ 53 \<longrightarrow>
      (handleIncrement ^^ n) (Num mn) = Num (mn + int n))"
proof (intro conjI impI)
  assume "- (2 ^ 53) \<le> c \<and> c < 2 ^ 53"
  then have "- (2 ^ 53) \<le> c" and "c < 2 ^ 53"
    by simp_all
  then show "handleIncrement (Num c) = Num (c + 1)"
    by (rule handleIncrement_exact)
next
  assume range: "- (2 ^ 53) \<le> mn \<and> mn + int n \<le> 2 ^ 53"
  have "k \<le> n \<Longrightarrow> (handleIncrement ^^ k) (Num mn) = Num (mn + int k)" for k
  proof (induction k)
    case 0
    show ?case by simp
  next
    case (Suc k)
    then have before: "(handleIncrement ^^ k) (Num mn) = Num (mn + int k)"
      by simp
    from Suc.prems range have "- (2 ^ 53) \<le> mn + int k" and "mn + int k < 2 ^ 53"
      by simp_all
    then have "handleIncrement (Num (mn + int k)) = Num (mn + int k + 1)"
      by (rule handleIncrement_exact)
    with before show ?case
      by (simp add: add.assoc)
  qed
  then show "(handleIncrement ^^ n) (Num mn) = Num (mn + int n)"
    by simp
qed

text \<open>From 41 to 42, and three increments from \<open>min = 1\<close>.\<close>

theorem increment_exact_witness:
  "handleIncrement (Num 41) = Num 42 \<and>
   (handleIncrement ^^ 3) (Num copies_min) = Num (copies_min + 3)"
  using increment_exact [of 41 copies_min 3] by (simp add: copies_min_def)

subsection \<open>Typing\<close>

text \<open>
  C10. An edit whose text is not empty and for which \<open>parseInt\<close> yields NaN leaves the
  value as it was; if an edit changes the value, then its text is empty or \<open>parseInt\<close>
  reads a number from it. The empty text gives the empty state, a text from which
  \<open>parseInt\<close> reads \<open>n\<close> gives \<open>n\<close>, and the text \<open>abc\<close> changes nothing.
\<close>

theorem unparseable_edit_ignored:
  "(v \<noteq> [] \<and> parseInt v = None \<longrightarrow> handleInputChange v c = c) \<and>
   (handleInputChange v c \<noteq> c \<longrightarrow> v = [] \<or> parseInt v \<noteq> None) \<and>
   handleInputChange [] c = Empty \<and>
   (v \<noteq> [] \<and> parseInt v = Some n \<longrightarrow> handleInputChange v c = Number n) \<and>
   handleInputChange ''abc'' c = c"
  by (auto simp: handleInputChange_def parseInt_abc split: option.splits)

text \<open>A field that holds 3: the text \<open>abc\<close> leaves 3, and the text \<open>12px\<close>, which starts
  with an integer, gives 12.\<close>

theorem unparseable_edit_ignored_witness:
  "parseInt ''abc'' = None \<and> handleInputChange ''abc'' (Num 3) = Num 3 \<and>
   handleInputChange ''12px'' (Num 3) = Num 12"
  using unparseable_edit_ignored [of "''abc''" "Num 3" "Finite 12"]
    unparseable_edit_ignored [of "''12px''" "Num 3" "Finite 12"] parseInt_12px parseInt_abc
  by simp

section \<open>The submission handler\<close>

subsection \<open>What setStatus leaves alone\<close>

lemma status_setStatus [simp]: "status (setStatus new s) = new"
  by (auto simp: setStatus_def statusEffect_def runCleanup_def clearTimeout_def setTimeout_def
      Let_def split: option.splits)

lemma setStatus_frame [simp]:
  "isLoading (setStatus new s) = isLoading s"
  "fileName (setStatus new s) = fileName s"
  "count (setStatus new s) = count s"
  "fileInput (setStatus new s) = fileInput s"
  "refAttached (setStatus new s) = refAttached s"
  "fetches (setStatus new s) = fetches s"
  "console (setStatus new s) = console s"
  by (auto simp: setStatus_def statusEffect_def runCleanup_def clearTimeout_def setTimeout_def
      Let_def split: option.splits)

subsection \<open>Missing configuration\<close>

lemma truthy_None [simp]: "\<not> truthy None"
  by (simp add: truthy_def)

text \<open>The guard of line 303 also catches a variable set to the empty string.\<close>

lemma handleSubmit_begin_missing:
  "\<not> truthy (apiKey cfg) \<or> \<not> truthy (webhookUrl cfg) \<Longrightarrow>
   handleSubmit_begin cfg s =
     (setStatus (Some \<lparr>message = ''Error: Missing configuration. Please check your .env.local file.'',
                       type = Error\<rparr>) s, None)"
  by (simp add: handleSubmit_begin_def)

text \<open>
  C1. If \<open>apiKey\<close> or \<open>webhookUrl\<close> is absent from the configuration, a submission ends with
  the error status whose message is exactly "Error: Missing configuration. Please check
  your .env.local file.", and it issues no request: the handler returns before the call
  of \<open>fetch\<close> (\<open>handleSubmit_begin\<close> returns no request, and the whole handler is that
  first part), and the list of requests issued is what it was.
\<close>

theorem missing_configuration:
  assumes "apiKey cfg = None \<or> webhookUrl cfg = None"
  shows "status (handleSubmit cfg fetch s) =
           Some \<lparr>message = ''Error: Missing configuration. Please check your .env.local file.'',
                 type = Error\<rparr> \<and>
         snd (handleSubmit_begin cfg s) = None \<and>
         handleSubmit cfg fetch s = fst (handleSubmit_begin cfg s) \<and>
         fetches (handleSubmit cfg fetch s) = fetches s"
proof -
  from assms have "\<not> truthy (apiKey cfg) \<or> \<not> truthy (webhookUrl cfg)"
    by auto
  then show ?thesis
    by (simp add: handleSubmit_def handleSubmit_begin_missing)
qed

text \<open>With no API key, on the application as mounted: the error status, and no request.\<close>

theorem missing_configuration_witness:
  "status (handleSubmit \<lparr>apiKey = None, webhookUrl = Some ''https://hook''\<rparr> (\<lambda>req. Rejected) mounted) =
     Some \<lparr>message = ''Error: Missing configuration. Please check your .env.local file.'',
           type = Error\<rparr> \<and>
   fetches (handleSubmit \<lparr>apiKey = None, webhookUrl = Some ''https://hook''\<rparr> (\<lambda>req. Rejected) mounted) = []"
proof -
  have absent: "apiKey \<lparr>apiKey = None, webhookUrl = Some ''https://hook''\<rparr> = None \<or>
                webhookUrl \<lparr>apiKey = None, webhookUrl = Some ''https://hook''\<rparr> = None"
    by simp
  have none_yet: "fetches mounted = []"
    by (simp add: mounted_def installResetFileName_def)
  from missing_configuration [OF absent, of "\<lambda>req. Rejected" mounted] none_yet
  show ?thesis by metis
qed

subsection \<open>The three ways a request ends\<close>

lemma handleSubmit_begin_Some:
  "handleSubmit_begin cfg s = (s1, Some req) \<Longrightarrow>
   truthy (apiKey cfg) \<and> truthy (webhookUrl cfg) \<and>
   s1 = (setStatus (Some \<lparr>message = ''Uploading and sending to printer...'', type = Info\<rparr>)
           (s\<lparr>isLoading := True\<rparr>))\<lparr>fetches := fetches s @ [req]\<rparr>"
  by (auto simp: handleSubmit_begin_def Let_def split: if_splits)

lemma handleSubmit_sending:
  "truthy (apiKey cfg) \<Longrightarrow> truthy (webhookUrl cfg) \<Longrightarrow>
   handleSubmit cfg fetch s =
     handleSubmit_resume (fetch (the (snd (handleSubmit_begin cfg s)))) (fst (handleSubmit_begin cfg s))"
  by (simp add: handleSubmit_def handleSubmit_begin_def Let_def)

lemma begin_frame:
  "count (fst (handleSubmit_begin cfg s)) = count s"
  "fileName (fst (handleSubmit_begin cfg s)) = fileName s"
  "fileInput (fst (handleSubmit_begin cfg s)) = fileInput s"
  "refAttached (fst (handleSubmit_begin cfg s)) = refAttached s"
  by (simp_all add: handleSubmit_begin_def Let_def)

text \<open>
  C3. Whatever way the request ends (\<open>out\<close> ranges over a rejected promise and every
  response, 2xx or not, with a readable body or not), the rest of the handler leaves
  \<open>isLoading\<close> false, on any state \<open>s\<close> it resumes on, and the submit button is enabled
  again. And a submission that issued its request had set \<open>isLoading\<close> by then, and has
  reset it when it is over.
\<close>

theorem isLoading_reset:
  "isLoading (handleSubmit_resume out s) = False \<and>
   \<not> submitDisabled (handleSubmit_resume out s) \<and>
   (handleSubmit_begin cfg s0 = (s1, Some req) \<longrightarrow>
      isLoading s1 \<and> \<not> isLoading (handleSubmit cfg fetch s0) \<and>
      \<not> submitDisabled (handleSubmit cfg fetch s0))"
proof -
  have resume: "isLoading (handleSubmit_resume out' s') = False" for out' s'
    by (simp add: handleSubmit_resume_def Let_def)
  show ?thesis
    by (auto simp: resume submitDisabled_def handleSubmit_def dest!: handleSubmit_begin_Some)
qed

text \<open>A rejected promise, a 200 and a 500, each on the application as mounted.\<close>

theorem isLoading_reset_witness:
  "isLoading (handleSubmit_resume Rejected mounted) = False \<and>
   isLoading (handleSubmit_resume (Resolved \<lparr>code = 200, body = Some []\<rparr>) mounted) = False \<and>
   isLoading (handleSubmit_resume (Resolved \<lparr>code = 500, body = Some ''printer offline''\<rparr>) mounted) = False"
  using isLoading_reset [of Rejected mounted]
    isLoading_reset [of "Resolved \<lparr>code = 200, body = Some []\<rparr>" mounted]
    isLoading_reset [of "Resolved \<lparr>code = 500, body = Some ''printer offline''\<rparr>" mounted]
  by blast

subsection \<open>A successful submission\<close>

text \<open>On a 2xx response: the success status, no file left in the input, the recorded
  name cleared when the ref is attached and the element carries \<open>resetFileName\<close>, and the
  loading flag reset. The count is not touched, by this or any other path.\<close>

lemma handleSubmit_resume_success:
  assumes "ok r"
  shows "status (handleSubmit_resume (Resolved r) s) =
           Some \<lparr>message = ''Success! Print job sent.'', type = Success\<rparr>"
    and "files (fileInput (handleSubmit_resume (Resolved r) s)) = []"
    and "refAttached s \<Longrightarrow> resetFileName (fileInput s) \<Longrightarrow>
         fileName (handleSubmit_resume (Resolved r) s) = None"
    and "isLoading (handleSubmit_resume (Resolved r) s) = False"
  using assms
  by (simp_all add: handleSubmit_resume_def handleSubmit_try_def form_reset_def Let_def)

lemma handleSubmit_keeps_count: "count (handleSubmit cfg fetch s) = count s"
  by (auto simp: handleSubmit_def handleSubmit_begin_def handleSubmit_resume_def handleSubmit_try_def
      handleSubmit_catch_def form_reset_def Let_def split: fetchOutcome.splits option.splits)

text \<open>
  C2. After a 2xx response the handler sets the success status "Success! Print job
  sent.", resets the form fields to their defaults, clears the recorded file name through
  \<open>resetFileName\<close> and leaves \<open>isLoading\<close> false. The code does all of this but for the
  copies field: \<open>form.reset()\<close> cannot change the state \<open>count\<close> that the field shows, and
  the handler has no hook for it as it has for the file name. Here the user has raised
  the copies from 1 to 2 and chosen \<open>a.pdf\<close>; after the successful submission the status,
  the file input, the file name and the loading flag are as stated, and the copies field
  still holds 2, not its default.
\<close>

theorem success_leaves_copies:
  "status (handleSubmit \<lparr>apiKey = Some ''key'', webhookUrl = Some ''https://hook''\<rparr>
            (\<lambda>req. Resolved \<lparr>code = 200, body = Some []\<rparr>)
            (handleFileChange [''a.pdf''] (mounted\<lparr>count := handleIncrement (count mounted)\<rparr>))) =
     Some \<lparr>message = ''Success! Print job sent.'', type = Success\<rparr> \<and>
   files (fileInput (handleSubmit \<lparr>apiKey = Some ''key'', webhookUrl = Some ''https://hook''\<rparr>
            (\<lambda>req. Resolved \<lparr>code = 200, body = Some []\<rparr>)
            (handleFileChange [''a.pdf''] (mounted\<lparr>count := handleIncrement (count mounted)\<rparr>)))) = [] \<and>
   fileName (handleSubmit \<lparr>apiKey = Some ''key'', webhookUrl = Some ''https://hook''\<rparr>
            (\<lambda>req. Resolved \<lparr>code = 200, body = Some []\<rparr>)
            (handleFileChange [''a.pdf''] (mounted\<lparr>count := handleIncrement (count mounted)\<rparr>))) = None \<and>
   isLoading (handleSubmit \<lparr>apiKey = Some ''key'', webhookUrl = Some ''https://hook''\<rparr>
            (\<lambda>req. Resolved \<lparr>code = 200, body = Some []\<rparr>)
            (handleFileChange [''a.pdf''] (mounted\<lparr>count := handleIncrement (count mounted)\<rparr>))) = False \<and>
   count (handleSubmit \<lparr>apiKey = Some ''key'', webhookUrl = Some ''https://hook''\<rparr>
            (\<lambda>req. Resolved \<lparr>code = 200, body = Some []\<rparr>)
            (handleFileChange [''a.pdf''] (mounted\<lparr>count := handleIncrement (count mounted)\<rparr>))) = Num 2 \<and>
   Num 2 \<noteq> Num copies_defaultValue"
  by (simp add: handleSubmit_def handleSubmit_begin_def handleSubmit_resume_def handleSubmit_try_def
      form_reset_def truthy_def ok_def setStatus_def statusEffect_def runCleanup_def setTimeout_def
      handleFileChange_def mounted_def installResetFileName_def copies_defaultValue_def
      toDouble_exact Let_def)

subsection \<open>A rejected submission\<close>

text \<open>
  C4, as stated: on a non-2xx response the message of the error status is the body text,
  or "Could not send print job." when the body is empty. The code puts "Error: " before
  either: for the body "printer offline" the message is "Error: printer offline", and for
  the empty body it is "Error: Could not send print job.".
\<close>

theorem rejection_message_counterexample:
  "status (handleSubmit_resume (Resolved \<lparr>code = 500, body = Some ''printer offline''\<rparr>) mounted) =
     Some \<lparr>message = ''Error: printer offline'', type = Error\<rparr> \<and>
   ''Error: printer offline'' \<noteq> ''printer offline'' \<and>
   status (handleSubmit_resume (Resolved \<lparr>code = 500, body = Some []\<rparr>) mounted) =
     Some \<lparr>message = ''Error: Could not send print job.'', type = Error\<rparr> \<and>
   ''Error: Could not send print job.'' \<noteq> ''Could not send print job.''"
  by (simp add: handleSubmit_resume_def handleSubmit_try_def ok_def)

text \<open>
  C4, amended. On a non-2xx response whose body text was read, the handler sets an error
  status whose message is "Error: " followed by the body text when that text is not
  empty, and by "Could not send print job." when it is; so the message contains the body
  text (for the body "printer offline" it contains "printer offline").
\<close>

theorem rejection_message:
  assumes "\<not> ok r" and "body r = Some errorText"
  shows "status (handleSubmit_resume (Resolved r) s) =
           Some \<lparr>message = ''Error: '' @ (if errorText \<noteq> [] then errorText
                                            else ''Could not send print job.''),
                 type = Error\<rparr> \<and>
         (\<exists>st. status (handleSubmit_resume (Resolved r) s) = Some st \<and>
               sublist errorText (message st))"
proof -
  let ?m = "''Error: '' @ (if errorText \<noteq> [] then errorText else ''Could not send print job.'')"
  have st: "status (handleSubmit_resume (Resolved r) s) = Some \<lparr>message = ?m, type = Error\<rparr>"
    using assms by (simp add: handleSubmit_resume_def handleSubmit_try_def)
  have "sublist errorText ?m"
  proof (cases "errorText = []")
    case True
    then show ?thesis by simp
  next
    case False
    have "sublist errorText (''Error: '' @ errorText)"
      by (rule sublist_append_leftI)
    with False show ?thesis by presburger
  qed
  with st show ?thesis by simp
qed

text \<open>A 500 with the body "printer offline".\<close>

theorem rejection_message_witness:
  "status (handleSubmit_resume (Resolved \<lparr>code = 500, body = Some ''printer offline''\<rparr>) mounted) =
     Some \<lparr>message = ''Error: printer offline'', type = Error\<rparr> \<and>
   (\<exists>st. status (handleSubmit_resume (Resolved \<lparr>code = 500, body = Some ''printer offline''\<rparr>) mounted) =
           Some st \<and>
         sublist ''printer offline'' (message st))"
proof -
  have a: "\<not> ok \<lparr>code = 500, body = Some ''printer offline''\<rparr>"
    by (simp add: ok_def)
  have b: "body \<lparr>code = 500, body = Some ''printer offline''\<rparr> = Some ''printer offline''"
    by simp
  note t = rejection_message [OF a b, of mounted]
  from t have 1: "status (handleSubmit_resume (Resolved \<lparr>code = 500, body = Some ''printer offline''\<rparr>) mounted) =
     Some \<lparr>message = ''Error: printer offline'', type = Error\<rparr>"
    by simp
  from t have 2: "\<exists>st. status (handleSubmit_resume (Resolved \<lparr>code = 500, body = Some ''printer offline''\<rparr>) mounted) =
      Some st \<and> sublist ''printer offline'' (message st)"
    by (rule conjunct2)
  from 1 2 show ?thesis by (rule conjI)
qed

subsection \<open>What a failed submission leaves alone\<close>

lemma resume_failed_frame:
  assumes "out = Rejected \<or> (\<exists>r. out = Resolved r \<and> \<not> ok r)"
  shows "count (handleSubmit_resume out s) = count s"
    and "fileName (handleSubmit_resume out s) = fileName s"
    and "fileInput (handleSubmit_resume out s) = fileInput s"
    and "refAttached (handleSubmit_resume out s) = refAttached s"
    and "fetches (handleSubmit_resume out s) = fetches s"
    and "\<exists>st. status (handleSubmit_resume out s) = Some st \<and> type st = Error"
  using assms
  by (auto simp: handleSubmit_resume_def handleSubmit_try_def handleSubmit_catch_def
      split: fetchOutcome.splits option.splits)

text \<open>
  C9. Take a submission that issues its request (both configuration values are set) and
  whose request fails: the promise rejects, or the response is not 2xx. From the state
  \<open>s\<close> at the submit event to the state at the end, the value of the copies field, the
  recorded file name and the file input element (its files, so its value) are unchanged,
  while \<open>isLoading\<close> is false again and an error status is set. The same holds of the
  second part of the handler alone, from whatever state \<open>s2\<close> it resumes on.
\<close>

theorem failed_submission_frame:
  assumes sending: "truthy (apiKey cfg) \<and> truthy (webhookUrl cfg)"
      and failure: "out = Rejected \<or> (\<exists>r. out = Resolved r \<and> \<not> ok r)"
  shows "(count (handleSubmit cfg (\<lambda>req. out) s) = count s \<and>
          fileName (handleSubmit cfg (\<lambda>req. out) s) = fileName s \<and>
          fileInput (handleSubmit cfg (\<lambda>req. out) s) = fileInput s \<and>
          refAttached (handleSubmit cfg (\<lambda>req. out) s) = refAttached s \<and>
          isLoading (handleSubmit cfg (\<lambda>req. out) s) = False \<and>
          (\<exists>st. status (handleSubmit cfg (\<lambda>req. out) s) = Some st \<and> type st = Error)) \<and>
         (count (handleSubmit_resume out s2) = count s2 \<and>
          fileName (handleSubmit_resume out s2) = fileName s2 \<and>
          fileInput (handleSubmit_resume out s2) = fileInput s2 \<and>
          refAttached (handleSubmit_resume out s2) = refAttached s2)"
proof -
  have whole: "handleSubmit cfg (\<lambda>req. out) s = handleSubmit_resume out (fst (handleSubmit_begin cfg s))"
    using sending by (simp add: handleSubmit_sending)
  have "isLoading (handleSubmit_resume out (fst (handleSubmit_begin cfg s))) = False"
    by (simp add: handleSubmit_resume_def Let_def)
  with whole resume_failed_frame [OF failure] show ?thesis
    by (simp add: begin_frame)
qed

text \<open>Two copies and \<open>a.pdf\<close> selected, and the webhook answers 500: both are still there.\<close>

theorem failed_submission_frame_witness:
  "count (handleSubmit \<lparr>apiKey = Some ''key'', webhookUrl = Some ''https://hook''\<rparr>
            (\<lambda>req. Resolved \<lparr>code = 500, body = Some ''printer offline''\<rparr>)
            (handleFileChange [''a.pdf''] (mounted\<lparr>count := Num 2\<rparr>))) = Num 2 \<and>
   fileName (handleSubmit \<lparr>apiKey = Some ''key'', webhookUrl = Some ''https://hook''\<rparr>
            (\<lambda>req. Resolved \<lparr>code = 500, body = Some ''printer offline''\<rparr>)
            (handleFileChange [''a.pdf''] (mounted\<lparr>count := Num 2\<rparr>))) = Some ''a.pdf'' \<and>
   files (fileInput (handleSubmit \<lparr>apiKey = Some ''key'', webhookUrl = Some ''https://hook''\<rparr>
            (\<lambda>req. Resolved \<lparr>code = 500, body = Some ''printer offline''\<rparr>)
            (handleFileChange [''a.pdf''] (mounted\<lparr>count := Num 2\<rparr>)))) = [''a.pdf'']"
proof -
  have sending: "truthy (apiKey \<lparr>apiKey = Some ''key'', webhookUrl = Some ''https://hook''\<rparr>) \<and>
                 truthy (webhookUrl \<lparr>apiKey = Some ''key'', webhookUrl = Some ''https://hook''\<rparr>)"
    by (simp add: truthy_def)
  have failure: "Resolved \<lparr>code = 500, body = Some ''printer offline''\<rparr> = Rejected \<or>
      (\<exists>r. Resolved \<lparr>code = 500, body = Some ''printer offline''\<rparr> = Resolved r \<and> \<not> ok r)"
    by (simp add: ok_def)
  have before: "count (handleFileChange [''a.pdf''] (mounted\<lparr>count := Num 2\<rparr>)) = Num 2 \<and>
      fileName (handleFileChange [''a.pdf''] (mounted\<lparr>count := Num 2\<rparr>)) = Some ''a.pdf'' \<and>
      files (fileInput (handleFileChange [''a.pdf''] (mounted\<lparr>count := Num 2\<rparr>))) = [''a.pdf'']"
    by (simp add: handleFileChange_def mounted_def installResetFileName_def)
  from failed_submission_frame [OF sending failure, of "handleFileChange [''a.pdf''] (mounted\<lparr>count := Num 2\<rparr>)"]
    before
  show ?thesis by metis
qed

section \<open>Auto-dismiss\<close>

subsection \<open>The timer discipline is kept\<close>

lemma owned_cases:
  assumes "owned s"
  obtains (idle) "timers s = []"
  | (pending) t r st where "timers s = [(t, r)]" "cleanup s = Some t" "0 < r"
      "status s = Some st" "type st = Success \<or> type st = Error"
  using assms
  by (auto simp: owned_def split: list.splits option.splits)

lemma runCleanup_owned:
  "owned s \<Longrightarrow> runCleanup (s\<lparr>status := new\<rparr>) = s\<lparr>status := new, timers := [], cleanup := None\<rparr>"
  by (erule owned_cases) (auto simp: runCleanup_def clearTimeout_def split: option.splits)

lemma setStatus_terminal:
  assumes "owned s" and "type st = Success \<or> type st = Error"
  shows "setStatus (Some st) s =
           s\<lparr>status := Some st, timers := [(nextTimer s, 5000)], nextTimer := Suc (nextTimer s),
             cleanup := Some (nextTimer s)\<rparr>"
  using assms(2)
  by (auto simp: setStatus_def statusEffect_def runCleanup_owned [OF assms(1)] setTimeout_def)

lemma setStatus_info:
  assumes "owned s" and "type st = Info"
  shows "setStatus (Some st) s = s\<lparr>status := Some st, timers := [], cleanup := None\<rparr>"
  using assms(2) by (simp add: setStatus_def statusEffect_def runCleanup_owned [OF assms(1)])

lemma setStatus_None:
  assumes "owned s"
  shows "timers (setStatus None s) = [] \<and> status (setStatus None s) = None"
  using assms
proof (cases rule: owned_cases)
  case idle
  then show ?thesis
    by (simp add: setStatus_def statusEffect_def runCleanup_owned [OF assms])
next
  case (pending t r st)
  then show ?thesis
    by (simp add: setStatus_def statusEffect_def runCleanup_owned [OF assms])
qed

lemma owned_mounted: "owned mounted"
  by (simp add: owned_def mounted_def installResetFileName_def)

lemma owned_setStatus:
  assumes "owned s"
  shows "owned (setStatus new s)"
proof (cases new)
  case None
  with setStatus_None [OF assms] show ?thesis
    by (simp add: owned_def)
next
  case (Some st)
  show ?thesis
  proof (cases "type st")
    case Info
    with Some assms show ?thesis by (simp add: setStatus_info owned_def)
  next
    case Success
    with Some assms show ?thesis by (simp add: setStatus_terminal owned_def)
  next
    case Error
    with Some assms show ?thesis by (simp add: setStatus_terminal owned_def)
  qed
qed

lemma owned_frame [simp]:
  "owned (s\<lparr>isLoading := a\<rparr>) = owned s"
  "owned (s\<lparr>fileName := b\<rparr>) = owned s"
  "owned (s\<lparr>count := c\<rparr>) = owned s"
  "owned (s\<lparr>fileInput := d\<rparr>) = owned s"
  "owned (s\<lparr>fetches := e\<rparr>) = owned s"
  "owned (s\<lparr>console := f\<rparr>) = owned s"
  by (simp_all add: owned_def split: list.splits)

lemma owned_PrintForm:
  "owned s \<Longrightarrow> owned (handleFileChange chosen s)"
  "owned s \<Longrightarrow> owned (handleRemoveFile s)"
  by (simp_all add: handleFileChange_def handleRemoveFile_def Let_def split: list.splits)

lemma owned_handleSubmit_begin: "owned s \<Longrightarrow> owned (fst (handleSubmit_begin cfg s))"
  by (simp add: handleSubmit_begin_def Let_def owned_setStatus)

lemma owned_handleSubmit_resume: "owned s \<Longrightarrow> owned (handleSubmit_resume out s)"
  by (auto simp: handleSubmit_resume_def handleSubmit_try_def handleSubmit_catch_def form_reset_def
      Let_def owned_setStatus split: fetchOutcome.splits option.splits)

subsection \<open>Time passing\<close>

lemma tick_idle: "timers s = [] \<Longrightarrow> tick s = s"
  by (simp add: tick_def)

lemma tick_pending: "timers s = [(t, r)] \<Longrightarrow> 1 < r \<Longrightarrow> tick s = s\<lparr>timers := [(t, r - 1)]\<rparr>"
  by (simp add: tick_def)

text \<open>The last millisecond: the timeout fires, the status is cleared, and the effect, run
  for the new status, arms nothing.\<close>

lemma tick_due:
  "timers s = [(t, Suc 0)] \<Longrightarrow> cleanup s = Some t \<Longrightarrow> status s = Some st \<Longrightarrow>
   tick s = s\<lparr>status := None, timers := [], cleanup := None\<rparr>"
  by (simp add: tick_def fire_def clearTimeout_def setStatus_def statusEffect_def runCleanup_def)

lemma owned_tick:
  assumes "owned s"
  shows "owned (tick s)"
  using assms
proof (cases rule: owned_cases)
  case idle
  with assms show ?thesis by (simp add: tick_idle)
next
  case (pending t r st)
  show ?thesis
  proof (cases "r = 1")
    case True
    with pending show ?thesis by (simp add: tick_due owned_def)
  next
    case False
    with pending have "1 < r" by simp
    with pending show ?thesis by (simp add: tick_pending owned_def)
  qed
qed

lemma owned_elapse: "owned s \<Longrightarrow> owned (elapse d s)"
  by (induction d arbitrary: s) (simp_all add: owned_tick)

lemma elapse_idle: "timers s = [] \<Longrightarrow> elapse d s = s"
  by (induction d arbitrary: s) (simp_all add: tick_idle)

lemma elapse_Suc: "elapse (Suc n) s = tick (elapse n s)"
  by (induction n arbitrary: s) simp_all

lemma elapse_pending:
  "timers s = [(t, r)] \<Longrightarrow> d < r \<Longrightarrow> elapse d s = s\<lparr>timers := [(t, r - d)]\<rparr>"
proof (induction d arbitrary: s r)
  case 0
  then show ?case by simp
next
  case (Suc d)
  from Suc.prems have "1 < r" by simp
  with Suc.prems have "tick s = s\<lparr>timers := [(t, r - 1)]\<rparr>"
    by (simp add: tick_pending)
  moreover have "elapse d (s\<lparr>timers := [(t, r - 1)]\<rparr>) = s\<lparr>timers := [(t, r - 1 - d)]\<rparr>"
    using Suc.IH [of "s\<lparr>timers := [(t, r - 1)]\<rparr>" "r - 1"] Suc.prems by simp
  ultimately show ?case by simp
qed

lemma elapse_due:
  assumes "timers s = [(t, r)]" "0 < r" "cleanup s = Some t" "status s = Some st"
  shows "elapse r s = s\<lparr>status := None, timers := [], cleanup := None\<rparr>"
proof -
  obtain d where r: "r = Suc d"
    using assms(2) by (cases r) auto
  have "elapse d s = s\<lparr>timers := [(t, Suc 0)]\<rparr>"
    using assms(1) r elapse_pending [of s t r d] by simp
  then have "elapse r s = tick (s\<lparr>timers := [(t, Suc 0)]\<rparr>)"
    by (simp add: r elapse_Suc del: elapse.simps)
  also have "\<dots> = s\<lparr>status := None, timers := [], cleanup := None\<rparr>"
    using assms tick_due [of "s\<lparr>timers := [(t, Suc 0)]\<rparr>" t st] by simp
  finally show ?thesis .
qed

text \<open>A status event on a state that keeps the discipline: no timeout but the one it may
  arm itself is left, and the new status stands for the next 5000 ms at least.\<close>

lemma supersede:
  assumes "owned s2" and "d' < 5000"
  shows "status (elapse d' (setStatus new s2)) = new \<and>
         fst ` set (timers (setStatus new s2)) \<subseteq> {nextTimer s2}"
proof (cases new)
  case None
  with setStatus_None [OF assms(1)] show ?thesis
    by (simp add: elapse_idle)
next
  case (Some st2)
  show ?thesis
  proof (cases "type st2 = Info")
    case True
    with Some assms(1) show ?thesis
      by (simp add: setStatus_info elapse_idle)
  next
    case False
    then have terminal: "type st2 = Success \<or> type st2 = Error"
      by (cases "type st2") simp_all
    with Some assms show ?thesis
      by (simp add: setStatus_terminal elapse_pending)
  qed
qed

subsection \<open>Every state the application reaches\<close>

lemma tick_frame:
  assumes "owned s"
  shows "fileInput (tick s) = fileInput s \<and> refAttached (tick s) = refAttached s"
  using assms
proof (cases rule: owned_cases)
  case idle
  then show ?thesis by (simp add: tick_idle)
next
  case (pending t r st)
  show ?thesis
  proof (cases "r = 1")
    case True
    with pending show ?thesis by (simp add: tick_due)
  next
    case False
    with pending have "1 < r" by simp
    with pending show ?thesis by (simp add: tick_pending)
  qed
qed

lemma resume_hook:
  "refAttached (handleSubmit_resume out s) = refAttached s \<and>
   resetFileName (fileInput (handleSubmit_resume out s)) = resetFileName (fileInput s)"
  by (auto simp: handleSubmit_resume_def handleSubmit_try_def handleSubmit_catch_def form_reset_def
      Let_def split: fetchOutcome.splits option.splits)

text \<open>The timer discipline holds, the ref is attached and the element carries
  \<open>resetFileName\<close>.\<close>

lemma reachable_invariant:
  assumes "reachable cfg s"
  shows "owned s \<and> refAttached s \<and> resetFileName (fileInput s)"
  using assms
proof (induction rule: reachable.induct)
  case start
  show ?case
    by (simp add: owned_mounted) (simp add: mounted_def installResetFileName_def)
next
  case (fileChange s chosen)
  then show ?case
    by (simp add: owned_PrintForm) (simp add: handleFileChange_def Let_def split: list.splits)
next
  case (removeFile s)
  then show ?case
    by (simp add: owned_PrintForm) (simp add: handleRemoveFile_def)
next
  case (submit s)
  then show ?case
    by (simp add: owned_handleSubmit_begin begin_frame)
next
  case (settle s out)
  then show ?case
    by (simp add: owned_handleSubmit_resume resume_hook)
next
  case (time s)
  then show ?case
    by (simp add: owned_tick tick_frame)
qed simp_all

text \<open>So a successful submission always clears the recorded file name.\<close>

lemma success_clears_fileName:
  assumes "reachable cfg s" and "ok r"
  shows "fileName (handleSubmit_resume (Resolved r) s) = None"
  using reachable_invariant [OF assms(1)] assms(2)
  by (simp add: handleSubmit_resume_success)

subsection \<open>The claim\<close>

text \<open>
  C5. On a state \<open>s\<close> that keeps the timer discipline, as every state the application
  reaches does, let the status become \<open>st\<close>.

  If \<open>st\<close> is a success or an error, one timeout of 5000 ms is pending afterwards, the
  one just armed; with no other event the status is still \<open>st\<close> after every \<open>d < 5000\<close>
  milliseconds, and absent after 5000. If instead a status event (\<open>new\<close>: a status, or
  the clearing of it) comes \<open>d < 5000\<close> milliseconds later, the timeout armed for \<open>st\<close> is
  no longer pending after it, and the status is \<open>new\<close> for every \<open>d' < 5000\<close> milliseconds
  that follow, also past the moment the first timeout was due: the last status wins.

  If \<open>st\<close> is an info, no timeout is pending afterwards and the status stays \<open>st\<close> however
  much time passes.
\<close>

theorem auto_dismiss:
  assumes "owned s"
  shows "(type st = Success \<or> type st = Error \<longrightarrow>
            timers (setStatus (Some st) s) = [(nextTimer s, 5000)] \<and>
            (\<forall>d. d < 5000 \<longrightarrow> status (elapse d (setStatus (Some st) s)) = Some st) \<and>
            status (elapse 5000 (setStatus (Some st) s)) = None \<and>
            (\<forall>d d'. d < 5000 \<and> d' < 5000 \<longrightarrow>
               nextTimer s \<notin> fst ` set (timers (setStatus new (elapse d (setStatus (Some st) s)))) \<and>
               status (elapse d' (setStatus new (elapse d (setStatus (Some st) s)))) = new)) \<and>
         (type st = Info \<longrightarrow>
            timers (setStatus (Some st) s) = [] \<and>
            (\<forall>d. status (elapse d (setStatus (Some st) s)) = Some st))"
proof (intro conjI impI allI)
  assume terminal: "type st = Success \<or> type st = Error"
  let ?s1 = "setStatus (Some st) s"
  have s1: "?s1 = s\<lparr>status := Some st, timers := [(nextTimer s, 5000)],
                     nextTimer := Suc (nextTimer s), cleanup := Some (nextTimer s)\<rparr>"
    using assms terminal by (rule setStatus_terminal)
  show armed: "timers ?s1 = [(nextTimer s, 5000)]"
    by (simp add: s1)
  show "status (elapse d ?s1) = Some st" if "d < 5000" for d
    using that armed by (simp add: elapse_pending)
  show "status (elapse 5000 ?s1) = None"
    using elapse_due [of ?s1 "nextTimer s" 5000 st] by (simp add: s1)
  {
    fix d d' :: nat
    assume "d < 5000 \<and> d' < 5000"
    then have d: "d < 5000" and d': "d' < 5000"
      by simp_all
    let ?s2 = "elapse d ?s1"
    have s2: "?s2 = ?s1\<lparr>timers := [(nextTimer s, 5000 - d)]\<rparr>"
      using armed d by (rule elapse_pending)
    have "owned ?s2"
      using assms by (simp add: owned_setStatus owned_elapse)
    from supersede [OF this d', of new]
    have st: "status (elapse d' (setStatus new ?s2)) = new"
      and ids: "fst ` set (timers (setStatus new ?s2)) \<subseteq> {nextTimer ?s2}"
      by simp_all
    have "nextTimer ?s2 = Suc (nextTimer s)"
      by (simp add: s2) (simp add: s1)
    with ids show "nextTimer s \<notin> fst ` set (timers (setStatus new ?s2))"
      by auto
    from st show "status (elapse d' (setStatus new ?s2)) = new" .
  }
next
  assume info: "type st = Info"
  have s1: "setStatus (Some st) s = s\<lparr>status := Some st, timers := [], cleanup := None\<rparr>"
    using assms info by (rule setStatus_info)
  show "timers (setStatus (Some st) s) = []"
    by (simp add: s1)
  then show "status (elapse d (setStatus (Some st) s)) = Some st" for d
    by (simp add: elapse_idle)
qed

text \<open>
  On the application as mounted: the success status arms timeout 0 for 5000 ms, is still
  shown after 4999 ms and gone after 5000; an info status set 3000 ms after the success
  is still shown 4999 ms later, 2999 ms after the first timeout was due; and an info
  status arms nothing.
\<close>

theorem auto_dismiss_witness:
  "timers (setStatus (Some \<lparr>message = ''Success! Print job sent.'', type = Success\<rparr>) mounted) = [(0, 5000)] \<and>
   status (elapse 4999 (setStatus (Some \<lparr>message = ''Success! Print job sent.'', type = Success\<rparr>) mounted)) =
     Some \<lparr>message = ''Success! Print job sent.'', type = Success\<rparr> \<and>
   status (elapse 5000 (setStatus (Some \<lparr>message = ''Success! Print job sent.'', type = Success\<rparr>) mounted)) = None \<and>
   status (elapse 4999
     (setStatus (Some \<lparr>message = ''Uploading and sending to printer...'', type = Info\<rparr>)
       (elapse 3000 (setStatus (Some \<lparr>message = ''Success! Print job sent.'', type = Success\<rparr>) mounted)))) =
     Some \<lparr>message = ''Uploading and sending to printer...'', type = Info\<rparr> \<and>
   timers (setStatus (Some \<lparr>message = ''Uploading and sending to printer...'', type = Info\<rparr>) mounted) = []"
proof -
  have n: "nextTimer mounted = 0"
    by (simp add: mounted_def installResetFileName_def)
  note a = auto_dismiss [OF owned_mounted, of "\<lparr>message = ''Success! Print job sent.'', type = Success\<rparr>"
      "Some \<lparr>message = ''Uploading and sending to printer...'', type = Info\<rparr>"]
  note b = auto_dismiss [OF owned_mounted, of "\<lparr>message = ''Uploading and sending to printer...'', type = Info\<rparr>" None]
  from a b n show ?thesis by simp
qed

end
